theory Spec2Isabelle
  imports Complex_Main "HOL-Library.List_Lexorder" "HOL-Library.Char_ord"
begin

section \<open>Partition lifecycle and index selection of the sfeos helpers\<close>

text \<open>
  A shallow embedding of \<^verbatim>\<open>sfeos_helpers/search_engine\<close>: the alias cache
  (\<^verbatim>\<open>selection/cache_manager.py\<close>), the index selectors
  (\<^verbatim>\<open>selection/sync_selectors.py\<close>, \<^verbatim>\<open>selection/unfiltered_selector.py\<close>),
  the adapter (\<^verbatim>\<open>adapters.py\<close>), the datetime index manager (\<^verbatim>\<open>managers.py\<close>)
  and the synchronous datetime inserter (\<^verbatim>\<open>sync_inserters.py\<close>).

  Every Python exception is a value of \<open>error\<close>; a method that reads or writes the
  client, the cache or the clock is a function \<open>world \<Rightarrow> (error + 'a) \<times> world\<close>, so the
  state reached when an exception propagates stays visible.
\<close>

subsection \<open>Exceptions\<close>

datatype error =
    HTTPException int string   \<comment> \<open>status code, detail\<close>
  | KeyError string
  | IndexError
  | ValueError
  | AttributeError
  | OverflowError

subsection \<open>\<^verbatim>\<open>datetime.date\<close> of the Python standard library\<close>

datatype date = Date (year: nat) (month: nat) (day: nat)

definition date_less :: "date \<Rightarrow> date \<Rightarrow> bool" where
  "date_less a b \<longleftrightarrow>
     year a < year b \<or>
     (year a = year b \<and> (month a < month b \<or> (month a = month b \<and> day a < day b)))"

definition is_leap :: "nat \<Rightarrow> bool" where
  "is_leap y \<longleftrightarrow> y mod 4 = 0 \<and> (y mod 400 = 0 \<or> y mod 100 \<noteq> 0)"

definition days_in_month :: "nat \<Rightarrow> nat \<Rightarrow> nat" where
  "days_in_month y m =
     (if m = 2 then (if is_leap y then 29 else 28)
      else if m = 4 \<or> m = 6 \<or> m = 9 \<or> m = 11 then 30 else 31)"

definition valid_date :: "date \<Rightarrow> bool" where
  "valid_date d \<longleftrightarrow>
     1 \<le> year d \<and> year d \<le> 9999 \<and> 1 \<le> month d \<and> month d \<le> 12 \<and>
     1 \<le> day d \<and> day d \<le> days_in_month (year d) (month d)"

text \<open>\<^verbatim>\<open>d + timedelta(days=1)\<close>; past \<^verbatim>\<open>date.max\<close> Python raises OverflowError.\<close>

definition add_one_day :: "date \<Rightarrow> error + date" where
  "add_one_day d =
     (if day d < days_in_month (year d) (month d) then Inr (Date (year d) (month d) (day d + 1))
      else if month d < 12 then Inr (Date (year d) (month d + 1) 1)
      else if year d < 9999 then Inr (Date (year d + 1) 1 1)
      else Inl OverflowError)"

text \<open>\<^verbatim>\<open>d - timedelta(days=1)\<close>; before \<^verbatim>\<open>date.min\<close> Python raises OverflowError.\<close>

definition sub_one_day :: "date \<Rightarrow> error + date" where
  "sub_one_day d =
     (if 1 < day d then Inr (Date (year d) (month d) (day d - 1))
      else if 1 < month d then
        Inr (Date (year d) (month d - 1) (days_in_month (year d) (month d - 1)))
      else if 1 < year d then Inr (Date (year d - 1) 12 31)
      else Inl OverflowError)"

definition digit_char :: "nat \<Rightarrow> char" where
  "digit_char n = ''0123456789'' ! (n mod 10)"

definition pad2 :: "nat \<Rightarrow> string" where
  "pad2 n = [digit_char (n div 10), digit_char n]"

definition pad4 :: "nat \<Rightarrow> string" where
  "pad4 n = [digit_char (n div 1000), digit_char (n div 100), digit_char (n div 10), digit_char n]"

text \<open>\<^verbatim>\<open>str(d)\<close>, the ISO form \<^verbatim>\<open>YYYY-MM-DD\<close>.\<close>

definition str_date :: "date \<Rightarrow> string" where
  "str_date d = pad4 (year d) @ ''-'' @ pad2 (month d) @ ''-'' @ pad2 (day d)"

subsection \<open>String methods of the Python standard library\<close>

definition startswith :: "string \<Rightarrow> string \<Rightarrow> bool" where
  "startswith s p \<longleftrightarrow> take (length p) s = p"

definition removeprefix :: "string \<Rightarrow> string \<Rightarrow> string" where
  "removeprefix s p = (if startswith s p then drop (length p) s else s)"

text \<open>
  Lower-casing of the ASCII letters. It is what \<^verbatim>\<open>str.lower\<close> does on an ASCII string;
  the instance of the helpers below uses it.
\<close>

definition lower_char :: "char \<Rightarrow> char" where
  "lower_char c =
     (if 65 \<le> (of_char c :: nat) \<and> (of_char c :: nat) \<le> 90
      then char_of ((of_char c :: nat) + 32) else c)"

definition lower :: "string \<Rightarrow> string" where
  "lower s = map lower_char s"

text \<open>\<^verbatim>\<open>",".join(xs)\<close>.\<close>

fun join_comma :: "string list \<Rightarrow> string" where
  "join_comma [] = []"
| "join_comma [x] = x"
| "join_comma (x # y # ys) = x @ '','' @ join_comma (y # ys)"

subsection \<open>The helpers of the \<^verbatim>\<open>database\<close> and \<^verbatim>\<open>mappings\<close> modules\<close>

text \<open>
  \<^verbatim>\<open>sfeos_helpers.database\<close> and \<^verbatim>\<open>sfeos_helpers.mappings\<close> are imported by the
  sources but are not among them. The embedding takes what it imports from them as a
  parameter \<open>h\<close> of every function that uses it, so the theorems hold whatever these
  helpers compute; \<open>spec_helpers\<close> below is one instance, used to run the code on
  concrete inputs. Python's \<^verbatim>\<open>str.lower\<close> is a parameter as well: it maps the capitals
  of every script, which a model whose characters are bytes does not spell out.
\<close>

record helpers =
  ITEMS_INDEX_PREFIX :: string
  ITEM_INDICES :: string
  translate_unsupported :: "string \<Rightarrow> string"
    \<comment> \<open>\<^verbatim>\<open>s.translate(_ES_INDEX_NAME_UNSUPPORTED_CHARS_TABLE)\<close>\<close>
  str_lower :: "string \<Rightarrow> string"
    \<comment> \<open>\<^verbatim>\<open>s.lower()\<close>\<close>
  index_alias_by_collection_id :: "string \<Rightarrow> string"
  indices :: "string list option \<Rightarrow> string"
  extract_date :: "string \<Rightarrow> error + date"
  extract_first_date_from_index :: "string \<Rightarrow> error + date"
  filter_indexes_by_datetime ::
    "string list \<Rightarrow> string option \<Rightarrow> string option \<Rightarrow> error + string list"

subsection \<open>The world: search engine, alias cache and clock\<close>

text \<open>
  The search engine is reached only through the client's verbs. Its state is the list
  of its indices, each with its alias names in the order the engine reports them, and
  the primary store size of each index. Every request is appended to \<open>requests\<close>.
  The engine answers every request (transport failures are not modelled): creating an
  index that exists changes nothing, as the adapters ignore status 400.

  \<^verbatim>\<open>time.time()\<close> reads \<open>clock\<close> at \<open>ticks\<close> and advances \<open>ticks\<close>, so
  successive readings are arbitrary.
\<close>

datatype request =
    GetAlias string
  | CreateIndex string "string list"
  | UpdateAliases string string string   \<comment> \<open>index, alias removed, alias added\<close>
  | Stats string

record world =
  engine :: "(string \<times> string list) list"
  size_in_bytes :: "string \<Rightarrow> int"
  requests :: "request list"
  max_size_gb :: real
  cache :: "(string \<rightharpoonup> string list) option"   \<comment> \<open>\<^verbatim>\<open>IndexCacheManager._cache\<close>\<close>
  timestamp :: real                                      \<comment> \<open>\<^verbatim>\<open>IndexCacheManager._timestamp\<close>\<close>
  ttl :: real                                            \<comment> \<open>\<^verbatim>\<open>IndexCacheManager._ttl\<close>\<close>
  clock :: "nat \<Rightarrow> real"
  ticks :: nat

type_synonym 'a io = "world \<Rightarrow> (error + 'a) \<times> world"

definition ret :: "'a \<Rightarrow> 'a io" where
  "ret x = (\<lambda>w. (Inr x, w))"

definition raise :: "error \<Rightarrow> 'a io" where
  "raise e = (\<lambda>w. (Inl e, w))"

definition bnd :: "'a io \<Rightarrow> ('a \<Rightarrow> 'b io) \<Rightarrow> 'b io" where
  "bnd m f = (\<lambda>w. case m w of (Inl e, w') \<Rightarrow> (Inl e, w') | (Inr x, w') \<Rightarrow> f x w')"

definition lift :: "error + 'a \<Rightarrow> 'a io" where
  "lift r = (\<lambda>w. (r, w))"

definition time_time :: "real io" where
  "time_time = (\<lambda>w. (Inr (clock w (ticks w)), w\<lparr>ticks := Suc (ticks w)\<rparr>))"

subsection \<open>\<^verbatim>\<open>IndexCacheManager\<close>\<close>

definition is_expired :: "bool io" where
  "is_expired = bnd time_time (\<lambda>now w. (Inr (now - timestamp w > ttl w), w))"

definition get_cache :: "(string \<rightharpoonup> string list) option io" where
  "get_cache = bnd is_expired (\<lambda>expired w. if expired then (Inr None, w) else (Inr (cache w), w))"

definition set_cache :: "(string \<rightharpoonup> string list) \<Rightarrow> unit io" where
  "set_cache data =
     (\<lambda>w. bnd time_time (\<lambda>now w'. (Inr (), w'\<lparr>timestamp := now\<rparr>)) (w\<lparr>cache := Some data\<rparr>))"

definition clear_cache :: "unit io" where
  "clear_cache = (\<lambda>w. (Inr (), w\<lparr>cache := None, timestamp := 0\<rparr>))"

subsection \<open>\<^verbatim>\<open>UnfilteredIndexSelector\<close>\<close>

definition unfiltered_select_indexes ::
  "helpers \<Rightarrow> string list option \<Rightarrow> (string option \<times> string option) \<Rightarrow> string" where
  "unfiltered_select_indexes h collection_ids datetime_search = indices h collection_ids"

subsection \<open>The singleton \<^verbatim>\<open>SyncDatetimeBasedIndexSelector\<close>\<close>

text \<open>
  \<^verbatim>\<open>_instance\<close> is a class attribute: one cell for the process. \<^verbatim>\<open>__new__\<close> fills it
  once with a bare object; \<^verbatim>\<open>__init__\<close> runs at every construction and sets the
  attributes only when \<^verbatim>\<open>_initialized\<close> is not there yet. \<open>'c\<close> is the type of clients.
\<close>

record cache_manager =
  cm_cache :: "(string \<rightharpoonup> string list) option"
  cm_timestamp :: real
  cm_ttl :: real

definition new_IndexCacheManager :: "cache_manager" where
  "new_IndexCacheManager = \<lparr>cm_cache = None, cm_timestamp = 0, cm_ttl = 3600\<rparr>"

datatype 'c selector_obj =
    Bare
  | Initialized (loader_client: 'c) (selector_cache: cache_manager)

definition selector_new :: "'c selector_obj option \<Rightarrow> 'c selector_obj option" where
  "selector_new inst = (case inst of None \<Rightarrow> Some Bare | Some obj \<Rightarrow> Some obj)"

definition selector_init :: "'c \<Rightarrow> 'c selector_obj \<Rightarrow> 'c selector_obj" where
  "selector_init sync_client obj =
     (case obj of Bare \<Rightarrow> Initialized sync_client new_IndexCacheManager
      | Initialized c m \<Rightarrow> Initialized c m)"

text \<open>\<^verbatim>\<open>SyncDatetimeBasedIndexSelector(client)\<close>: the class attribute afterwards.\<close>

definition construct_selector :: "'c \<Rightarrow> 'c selector_obj option \<Rightarrow> 'c selector_obj option" where
  "construct_selector client inst = map_option (selector_init client) (selector_new inst)"

subsection \<open>The client's verbs\<close>

text \<open>
  Modelled from the spec: the search-engine client, which is not part of the sources.
  Its verbs are those of the specification's external interfaces: create an index
  (ignored when it exists), update aliases (remove one, add one, on one index), get
  the aliases of the indices matching a pattern, get the store size of an index.
\<close>

text \<open>\<^verbatim>\<open>client.indices.get_alias(index=pattern)\<close> with \<open>pattern\<close> a prefix and a star.\<close>

definition indices_get_alias :: "string \<Rightarrow> (string \<times> string list) list io" where
  "indices_get_alias prefix =
     (\<lambda>w. (Inr (filter (\<lambda>(name, aliases). startswith name prefix) (engine w)),
           w\<lparr>requests := requests w @ [GetAlias (prefix @ ''*'')]\<rparr>))"

text \<open>\<^verbatim>\<open>client.indices.create(index=name, body={"aliases": ...})\<close>, status 400 ignored.\<close>

definition indices_create :: "string \<Rightarrow> string list \<Rightarrow> unit io" where
  "indices_create name aliases =
     (\<lambda>w. (Inr (),
           w\<lparr>engine := (if name \<in> set (map fst (engine w)) then engine w
                         else engine w @ [(name, aliases)]),
             requests := requests w @ [CreateIndex name aliases]\<rparr>))"

text \<open>
  \<^verbatim>\<open>client.indices.update_aliases\<close> with the two actions \<^verbatim>\<open>remove\<close> and \<^verbatim>\<open>add\<close> on
  one index.
\<close>

definition rename_alias :: "string \<Rightarrow> string \<Rightarrow> string list \<Rightarrow> string list" where
  "rename_alias old_alias new_alias aliases =
     (let rest = removeAll old_alias aliases
      in if new_alias \<in> set rest then rest else rest @ [new_alias])"

definition indices_update_aliases :: "string \<Rightarrow> string \<Rightarrow> string \<Rightarrow> unit io" where
  "indices_update_aliases index old_alias new_alias =
     (\<lambda>w. (Inr (),
           w\<lparr>engine := map (\<lambda>(name, aliases).
                           if name = index then (name, rename_alias old_alias new_alias aliases)
                           else (name, aliases)) (engine w),
             requests := requests w @ [UpdateAliases index old_alias new_alias]\<rparr>))"

text \<open>
  \<^verbatim>\<open>client.indices.stats(index=name)["_all"]["primaries"]["store"]["size_in_bytes"]\<close>:
  the name is an index or an alias; the sizes of the indices it stands for are added.
\<close>

definition indices_stats :: "string \<Rightarrow> int io" where
  "indices_stats name =
     (\<lambda>w. (Inr (sum_list (map (\<lambda>(n, aliases). size_in_bytes w n)
                    (filter (\<lambda>(n, aliases). n = name \<or> name \<in> set aliases) (engine w)))),
           w\<lparr>requests := requests w @ [Stats name]\<rparr>))"

subsection \<open>\<^verbatim>\<open>IndexSizeManager\<close>\<close>

definition get_index_size_in_gb_sync :: "string \<Rightarrow> real io" where
  "get_index_size_in_gb_sync index_name =
     bnd (indices_stats index_name) (\<lambda>bytes. ret (real_of_int bytes / 1000000000))"

definition is_index_oversized_sync :: "string \<Rightarrow> bool io" where
  "is_index_oversized_sync index_name =
     bnd (get_index_size_in_gb_sync index_name) (\<lambda>size_gb w. (Inr (size_gb > max_size_gb w), w))"

subsection \<open>\<^verbatim>\<open>SyncIndexAliasLoader\<close>\<close>

text \<open>The inner loop of \<^verbatim>\<open>load_aliases\<close> over the alias names of one index.\<close>

definition scan_aliases :: "string \<Rightarrow> string list \<Rightarrow> string option \<times> string list" where
  "scan_aliases prefix aliases =
     foldl (\<lambda>(base_alias, items_aliases) alias_name.
              if \<not> startswith alias_name prefix then (base_alias, items_aliases @ [alias_name])
              else (Some alias_name, items_aliases))
           (None, []) aliases"

text \<open>The body of the outer loop: \<^verbatim>\<open>result.setdefault(base_alias, []).extend(items_aliases)\<close>.\<close>

definition add_index_info ::
  "string \<Rightarrow> (string \<rightharpoonup> string list) \<Rightarrow> string list \<Rightarrow> (string \<rightharpoonup> string list)" where
  "add_index_info prefix result aliases =
     (case scan_aliases prefix aliases of
        (None, items_aliases) \<Rightarrow> result
      | (Some base_alias, items_aliases) \<Rightarrow>
          if base_alias \<noteq> [] \<and> items_aliases \<noteq> []
          then result(base_alias \<mapsto>
                 (case result base_alias of None \<Rightarrow> [] | Some l \<Rightarrow> l) @ items_aliases)
          else result)"

definition load_aliases :: "helpers \<Rightarrow> (string \<rightharpoonup> string list) io" where
  "load_aliases h =
     bnd (indices_get_alias (ITEMS_INDEX_PREFIX h)) (\<lambda>response.
       let result = foldl (\<lambda>r (name, aliases). add_index_info (ITEMS_INDEX_PREFIX h) r aliases)
                          Map.empty response
       in bnd (set_cache result) (\<lambda>_. ret result))"

definition get_aliases :: "helpers \<Rightarrow> (string \<rightharpoonup> string list) io" where
  "get_aliases h =
     bnd get_cache (\<lambda>cached.
       case cached of Some c \<Rightarrow> ret c | None \<Rightarrow> load_aliases h)"

definition refresh_aliases :: "helpers \<Rightarrow> (string \<rightharpoonup> string list) io" where
  "refresh_aliases h = load_aliases h"

definition loader_get_collection_indexes :: "helpers \<Rightarrow> string \<Rightarrow> string list io" where
  "loader_get_collection_indexes h collection_id =
     bnd (get_aliases h) (\<lambda>aliases.
       ret (case aliases (index_alias_by_collection_id h collection_id) of
              None \<Rightarrow> [] | Some l \<Rightarrow> l))"

subsection \<open>\<^verbatim>\<open>SyncDatetimeBasedIndexSelector\<close>\<close>

text \<open>
  The functions below run on the one instance of the selector: its cache manager is
  the \<open>cache\<close>, \<open>timestamp\<close> and \<open>ttl\<close> of the world, and its loader's client is the
  engine of the world.
\<close>

definition refresh_cache :: "helpers \<Rightarrow> (string \<rightharpoonup> string list) io" where
  "refresh_cache h = refresh_aliases h"

definition get_collection_indexes :: "helpers \<Rightarrow> string \<Rightarrow> string list io" where
  "get_collection_indexes h collection_id = loader_get_collection_indexes h collection_id"

text \<open>The \<^verbatim>\<open>for\<close> loop of \<^verbatim>\<open>select_indexes\<close>.\<close>

fun select_loop ::
  "helpers \<Rightarrow> string list \<Rightarrow> string option \<Rightarrow> string option \<Rightarrow> string list \<Rightarrow> string list io" where
  "select_loop h [] gte lte selected_indexes = ret selected_indexes"
| "select_loop h (collection_id # rest) gte lte selected_indexes =
     bnd (get_collection_indexes h collection_id) (\<lambda>collection_indexes.
     bnd (lift (filter_indexes_by_datetime h collection_indexes gte lte)) (\<lambda>filtered_indexes.
       select_loop h rest gte lte (selected_indexes @ filtered_indexes)))"

text \<open>
  \<open>datetime_search\<close> is the pair of \<^verbatim>\<open>datetime_search.get("gte")\<close> and
  \<^verbatim>\<open>datetime_search.get("lte")\<close>.
\<close>

definition select_indexes ::
  "helpers \<Rightarrow> string list option \<Rightarrow> (string option \<times> string option) \<Rightarrow> string io" where
  "select_indexes h collection_ids datetime_search =
     (case collection_ids of
        None \<Rightarrow> ret (ITEM_INDICES h)
      | Some [] \<Rightarrow> ret (ITEM_INDICES h)
      | Some (c # cs) \<Rightarrow>
          bnd (select_loop h (c # cs) (fst datetime_search) (snd datetime_search) [])
            (\<lambda>selected_indexes.
               ret (if selected_indexes \<noteq> [] then join_comma selected_indexes else [])))"

text \<open>
  \<^verbatim>\<open>all_indexes.sort()\<close> on the list \<^verbatim>\<open>get_collection_indexes\<close> returned: when the
  collection is in the cached dictionary, that list is the dictionary's own, and the
  sort is seen by every later reader of the cache.
\<close>

definition sort_collection_indexes :: "helpers \<Rightarrow> string \<Rightarrow> unit io" where
  "sort_collection_indexes h collection_id =
     (\<lambda>w. (Inr (),
           w\<lparr>cache := map_option
                (\<lambda>m. case m (index_alias_by_collection_id h collection_id) of
                        None \<Rightarrow> m
                      | Some l \<Rightarrow> m(index_alias_by_collection_id h collection_id \<mapsto> sort l))
                (cache w)\<rparr>))"

subsection \<open>\<^verbatim>\<open>SearchEngineAdapter\<close>\<close>

definition create_index_name :: "helpers \<Rightarrow> string \<Rightarrow> string \<Rightarrow> string" where
  "create_index_name h collection_id start_date =
     ITEMS_INDEX_PREFIX h @ str_lower h (translate_unsupported h collection_id) @ ''_''
       @ start_date"

text \<open>The keys of the dictionary \<^verbatim>\<open>{collection_alias: {}, alias_name: {}}\<close>.\<close>

definition alias_keys :: "string \<Rightarrow> string \<Rightarrow> string list" where
  "alias_keys collection_alias alias_name =
     (if collection_alias = alias_name then [collection_alias] else [collection_alias, alias_name])"

definition create_datetime_index_sync :: "helpers \<Rightarrow> string \<Rightarrow> string \<Rightarrow> string io" where
  "create_datetime_index_sync h collection_id start_date =
     (let index_name = create_index_name h collection_id start_date;
          alias_name = removeprefix index_name (ITEMS_INDEX_PREFIX h);
          collection_alias = index_alias_by_collection_id h collection_id
      in bnd (indices_create index_name (alias_keys collection_alias alias_name))
           (\<lambda>_. ret alias_name))"

definition update_index_alias_sync :: "helpers \<Rightarrow> string \<Rightarrow> string \<Rightarrow> string io" where
  "update_index_alias_sync h end_date old_alias =
     (let index = ITEMS_INDEX_PREFIX h @ old_alias;
          new_alias = old_alias @ ''-'' @ end_date
      in bnd (indices_update_aliases index old_alias new_alias) (\<lambda>_. ret new_alias))"

subsection \<open>Items\<close>

text \<open>
  An item is a dictionary; the code reads \<^verbatim>\<open>item["id"]\<close>, \<^verbatim>\<open>item["collection"]\<close>
  and \<^verbatim>\<open>item["properties"]["datetime"]\<close>. \<open>item_datetime\<close> is \<open>None\<close> when the key is
  not there, \<open>Some None\<close> when its value is \<^verbatim>\<open>None\<close>, and \<open>Some (Some s)\<close> for a string.
\<close>

record item =
  item_id :: string
  item_collection :: string
  item_datetime :: "string option option"

definition subscript_datetime :: "item \<Rightarrow> error + string option" where
  "subscript_datetime product =
     (case item_datetime product of
        None \<Rightarrow> Inl (KeyError ''datetime'')
      | Some v \<Rightarrow> Inr v)"

text \<open>\<^verbatim>\<open>extract_date(v)\<close> for a value that may be \<^verbatim>\<open>None\<close>, on which it cannot work.\<close>

definition extract_date_value :: "helpers \<Rightarrow> string option \<Rightarrow> error + date" where
  "extract_date_value h v = (case v of None \<Rightarrow> Inl AttributeError | Some s \<Rightarrow> extract_date h s)"

definition mk_item_id :: "string \<Rightarrow> string \<Rightarrow> string" where
  "mk_item_id iid collection_id = iid @ ''|'' @ collection_id"

subsection \<open>\<^verbatim>\<open>DatetimeIndexManager\<close>\<close>

definition validate_product_datetime :: "item \<Rightarrow> error + string" where
  "validate_product_datetime product =
     (case subscript_datetime product of
        Inl e \<Rightarrow> Inl e
      | Inr None \<Rightarrow> Inl (HTTPException 400 ''Product datetime is required for indexing'')
      | Inr (Some product_datetime) \<Rightarrow>
          if product_datetime = []
          then Inl (HTTPException 400 ''Product datetime is required for indexing'')
          else Inr product_datetime)"

definition handle_new_collection_sync :: "helpers \<Rightarrow> string \<Rightarrow> string \<Rightarrow> string io" where
  "handle_new_collection_sync h collection_id product_datetime =
     bnd (lift (extract_date h product_datetime)) (\<lambda>d.
       create_datetime_index_sync h collection_id (str_date d))"

definition handle_early_date_sync :: "helpers \<Rightarrow> string \<Rightarrow> date \<Rightarrow> date \<Rightarrow> string io" where
  "handle_early_date_sync h collection_id start_date end_date =
     bnd (create_datetime_index_sync h collection_id (str_date start_date)) (\<lambda>target_index.
     bnd (lift (sub_one_day end_date)) (\<lambda>day_before.
       update_index_alias_sync h (str_date day_before) target_index))"

definition handle_oversized_index_sync :: "helpers \<Rightarrow> string \<Rightarrow> string \<Rightarrow> string \<Rightarrow> string io" where
  "handle_oversized_index_sync h collection_id target_index product_datetime =
     bnd (lift (extract_date h product_datetime)) (\<lambda>end_date.
     bnd (lift (extract_first_date_from_index h target_index)) (\<lambda>latest_index_start.
       if end_date \<noteq> latest_index_start
       then bnd (update_index_alias_sync h (str_date end_date) target_index) (\<lambda>_.
            bnd (lift (add_one_day end_date)) (\<lambda>next_day.
              create_datetime_index_sync h collection_id (str_date next_day)))
       else ret target_index))"

subsection \<open>\<^verbatim>\<open>SyncDatetimeIndexInserter\<close>\<close>

definition get_target_index_internal ::
  "helpers \<Rightarrow> string \<Rightarrow> item \<Rightarrow> bool \<Rightarrow> string io" where
  "get_target_index_internal h collection_id product check_size =
     bnd (lift (validate_product_datetime product)) (\<lambda>product_datetime.
     bnd (select_indexes h (Some [collection_id]) (Some product_datetime, Some product_datetime))
       (\<lambda>target_index.
     bnd (get_collection_indexes h collection_id) (\<lambda>all_indexes.
       if all_indexes = []
       then bnd (handle_new_collection_sync h collection_id product_datetime) (\<lambda>target_index.
            bnd (refresh_cache h) (\<lambda>_. ret target_index))
       else
         bnd (sort_collection_indexes h collection_id) (\<lambda>_.
         bnd (lift (extract_date h product_datetime)) (\<lambda>start_date.
         bnd (lift (extract_first_date_from_index h (hd (sort all_indexes)))) (\<lambda>end_date.
           if date_less start_date end_date
           then bnd (handle_early_date_sync h collection_id start_date end_date) (\<lambda>alias.
                bnd (refresh_cache h) (\<lambda>_. ret alias))
           else if target_index \<noteq> last (sort all_indexes) then ret target_index
           else if check_size
           then bnd (is_index_oversized_sync target_index) (\<lambda>oversized.
                  if oversized
                  then bnd (handle_oversized_index_sync h collection_id target_index
                              product_datetime) (\<lambda>target_index.
                       bnd (refresh_cache h) (\<lambda>_. ret target_index))
                  else ret target_index)
           else ret target_index))))))"

definition get_target_index :: "helpers \<Rightarrow> string \<Rightarrow> item \<Rightarrow> string io" where
  "get_target_index h collection_id product =
     get_target_index_internal h collection_id product True"

definition ensure_indexes_exist :: "helpers \<Rightarrow> string \<Rightarrow> item list \<Rightarrow> unit io" where
  "ensure_indexes_exist h collection_id items =
     bnd (get_collection_indexes h collection_id) (\<lambda>all_indexes.
       if all_indexes = []
       then (case items of
               [] \<Rightarrow> raise IndexError
             | first_item # _ \<Rightarrow>
                 bnd (lift (subscript_datetime first_item)) (\<lambda>v.
                 bnd (lift (extract_date_value h v)) (\<lambda>d.
                 bnd (create_datetime_index_sync h collection_id (str_date d)) (\<lambda>_.
                 bnd (refresh_cache h) (\<lambda>_. ret ())))))
       else ret ())"

record split_info =
  split_date :: date
  new_index :: string

definition create_new_index_for_split ::
  "helpers \<Rightarrow> string \<Rightarrow> string \<Rightarrow> item \<Rightarrow> split_info option io" where
  "create_new_index_for_split h collection_id latest_index first_item =
     bnd (lift (extract_first_date_from_index h latest_index)) (\<lambda>current_index_end_date.
     bnd (lift (subscript_datetime first_item)) (\<lambda>v.
     bnd (lift (extract_date_value h v)) (\<lambda>first_item_date.
       if first_item_date \<noteq> current_index_end_date
       then bnd (update_index_alias_sync h (str_date current_index_end_date) latest_index) (\<lambda>_.
            bnd (lift (add_one_day current_index_end_date)) (\<lambda>next_day_start.
            bnd (create_datetime_index_sync h collection_id (str_date next_day_start)) (\<lambda>new.
              ret (Some \<lparr>split_date = current_index_end_date, new_index = new\<rparr>))))
       else ret None)))"

definition handle_index_splitting ::
  "helpers \<Rightarrow> string \<Rightarrow> item list \<Rightarrow> split_info option io" where
  "handle_index_splitting h collection_id items =
     bnd (get_collection_indexes h collection_id) (\<lambda>all_indexes.
     bnd (sort_collection_indexes h collection_id) (\<lambda>_.
       if all_indexes = [] then raise IndexError
       else let latest_index = last (sort all_indexes) in
         (case items of
            [] \<Rightarrow> raise IndexError
          | first_item # _ \<Rightarrow>
              bnd (get_target_index_internal h collection_id first_item False)
                (\<lambda>first_item_index.
                 if first_item_index \<noteq> latest_index then ret None
                 else bnd (is_index_oversized_sync first_item_index) (\<lambda>oversized.
                   if oversized
                   then create_new_index_for_split h collection_id first_item_index first_item
                   else ret None)))))"

record action =
  action_index :: string     \<comment> \<open>\<^verbatim>\<open>"_index"\<close>\<close>
  action_id :: string        \<comment> \<open>\<^verbatim>\<open>"_id"\<close>\<close>
  action_source :: item      \<comment> \<open>\<^verbatim>\<open>"_source"\<close>\<close>

text \<open>The target of one item in the loop of \<^verbatim>\<open>_create_bulk_actions\<close>.\<close>

definition bulk_target :: "helpers \<Rightarrow> string \<Rightarrow> split_info option \<Rightarrow> item \<Rightarrow> string io" where
  "bulk_target h collection_id split item =
     (case split of
        Some info \<Rightarrow>
          bnd (lift (subscript_datetime item)) (\<lambda>v.
          bnd (lift (extract_date_value h v)) (\<lambda>item_date.
            if date_less (split_date info) item_date then ret (new_index info)
            else get_target_index_internal h collection_id item False))
      | None \<Rightarrow> get_target_index_internal h collection_id item False)"

fun bulk_loop ::
  "helpers \<Rightarrow> string \<Rightarrow> split_info option \<Rightarrow> item list \<Rightarrow> action list \<Rightarrow> action list io" where
  "bulk_loop h collection_id split [] actions = ret actions"
| "bulk_loop h collection_id split (item # rest) actions =
     bnd (bulk_target h collection_id split item) (\<lambda>target_index.
       bulk_loop h collection_id split rest
         (actions @ [\<lparr>action_index = target_index,
                      action_id = mk_item_id (item_id item) (item_collection item),
                      action_source = item\<rparr>]))"

definition create_bulk_actions ::
  "helpers \<Rightarrow> string \<Rightarrow> item list \<Rightarrow> split_info option \<Rightarrow> action list io" where
  "create_bulk_actions h collection_id items split = bulk_loop h collection_id split items []"

definition prepare_bulk_actions :: "helpers \<Rightarrow> string \<Rightarrow> item list \<Rightarrow> action list io" where
  "prepare_bulk_actions h collection_id items =
     bnd (ensure_indexes_exist h collection_id items) (\<lambda>_.
     bnd (handle_index_splitting h collection_id items) (\<lambda>split.
       create_bulk_actions h collection_id items split))"

subsection \<open>An instance of the helpers\<close>

text \<open>
  Modelled from the spec: the functions and constants of \<^verbatim>\<open>sfeos_helpers.database\<close>
  and \<^verbatim>\<open>sfeos_helpers.mappings\<close> that the sources import and that are not among them
  (\<^verbatim>\<open>extract_date\<close>, \<^verbatim>\<open>extract_first_date_from_index\<close>, \<^verbatim>\<open>filter_indexes_by_datetime\<close>,
  \<^verbatim>\<open>index_alias_by_collection_id\<close>, \<^verbatim>\<open>indices\<close>, \<^verbatim>\<open>ITEMS_INDEX_PREFIX\<close>, \<^verbatim>\<open>ITEM_INDICES\<close>
  and the table of unsupported characters). The specification gives: an item's
  datetime is ISO 8601; a generated name is the prefix, the sanitized collection id
  (unsupported characters stripped, lower-cased), an underscore and the start date; a
  partition is kept by the datetime filter when its start date, the one encoded in its
  name, is at most \<open>lte\<close> and the next partition's start date, if there is one, is after
  \<open>gte\<close>; with no collection ids the selection is one wildcard pattern. The prefix
  \<^verbatim>\<open>items_\<close>, the wildcard pattern and the stripped characters are the defaults of the
  deployment.
\<close>

definition is_digit :: "char \<Rightarrow> bool" where
  "is_digit c \<longleftrightarrow> 48 \<le> (of_char c :: nat) \<and> (of_char c :: nat) \<le> 57"

definition number_of :: "string \<Rightarrow> nat" where
  "number_of s = foldl (\<lambda>n c. 10 * n + ((of_char c :: nat) - 48)) 0 s"

text \<open>A date \<^verbatim>\<open>YYYY-MM-DD\<close> at the very start of a string (the pattern \<^verbatim>\<open>\d{4}-\d{2}-\d{2}\<close>).\<close>

definition date_at_start :: "string \<Rightarrow> date option" where
  "date_at_start s =
     (if 10 \<le> length s \<and> list_all is_digit (take 4 s) \<and> s ! 4 = CHR ''-'' \<and>
         list_all is_digit (take 2 (drop 5 s)) \<and> s ! 7 = CHR ''-'' \<and>
         list_all is_digit (take 2 (drop 8 s))
      then Some (Date (number_of (take 4 s)) (number_of (take 2 (drop 5 s)))
                      (number_of (take 2 (drop 8 s))))
      else None)"

fun first_date_in :: "string \<Rightarrow> date option" where
  "first_date_in [] = None"
| "first_date_in (c # cs) =
     (case date_at_start (c # cs) of Some d \<Rightarrow> Some d | None \<Rightarrow> first_date_in cs)"

definition checked_date :: "date option \<Rightarrow> error + date" where
  "checked_date r =
     (case r of None \<Rightarrow> Inl ValueError
      | Some d \<Rightarrow> if valid_date d then Inr d else Inl ValueError)"

text \<open>
  Modelled from the spec: \<^verbatim>\<open>extract_date\<close> of the database module, the date of an
  item's ISO 8601 datetime: its first ten characters, checked to be a calendar date.
\<close>

definition spec_extract_date :: "string \<Rightarrow> error + date" where
  "spec_extract_date s = checked_date (date_at_start s)"

text \<open>
  Modelled from the spec: \<^verbatim>\<open>extract_first_date_from_index\<close> of the database module,
  the start date encoded in a partition's name: the first date found in it.
\<close>

definition spec_extract_first_date_from_index :: "string \<Rightarrow> error + date" where
  "spec_extract_first_date_from_index index_name = checked_date (first_date_in index_name)"

text \<open>
  Modelled from the spec: \<^verbatim>\<open>_ES_INDEX_NAME_UNSUPPORTED_CHARS_TABLE\<close> of the mappings
  module, which strips the characters that a name of the engine cannot hold.
\<close>

definition unsupported_chars :: "char list" where
  "unsupported_chars = [CHR 0x5C, CHR ''/'', CHR ''*'', CHR ''?'', CHR 0x22, CHR ''<'', CHR ''>'',
                        CHR ''|'', CHR '' '', CHR '','', CHR ''#'', CHR '':'']"

definition spec_translate_unsupported :: "string \<Rightarrow> string" where
  "spec_translate_unsupported s = filter (\<lambda>c. c \<notin> set unsupported_chars) s"

text \<open>
  Modelled from the spec: \<^verbatim>\<open>index_alias_by_collection_id\<close> of the database module, the
  collection alias: the prefix and the sanitized collection id.
\<close>

definition spec_index_alias_by_collection_id :: "string \<Rightarrow> string" where
  "spec_index_alias_by_collection_id collection_id =
     ''items_'' @ lower (spec_translate_unsupported collection_id)"

text \<open>
  Modelled from the spec: \<^verbatim>\<open>indices\<close> of the database module, every partition of the
  given collections through their collection aliases, or the wildcard pattern when no
  collection is given.
\<close>

definition spec_indices :: "string list option \<Rightarrow> string" where
  "spec_indices collection_ids =
     (case collection_ids of
        None \<Rightarrow> ''items_*''
      | Some [] \<Rightarrow> ''items_*''
      | Some (c # cs) \<Rightarrow> join_comma (map spec_index_alias_by_collection_id (c # cs)))"

fun map_result :: "('a \<Rightarrow> error + 'b) \<Rightarrow> 'a list \<Rightarrow> error + 'b list" where
  "map_result f [] = Inr []"
| "map_result f (x # xs) =
     (case f x of Inl e \<Rightarrow> Inl e
      | Inr y \<Rightarrow> (case map_result f xs of Inl e \<Rightarrow> Inl e | Inr ys \<Rightarrow> Inr (y # ys)))"

definition optional_date :: "string option \<Rightarrow> error + date option" where
  "optional_date v =
     (case v of None \<Rightarrow> Inr None
      | Some s \<Rightarrow> (case spec_extract_date s of Inl e \<Rightarrow> Inl e | Inr d \<Rightarrow> Inr (Some d)))"

text \<open>The start date of the next partition: the least start date after \<open>s\<close>.\<close>

definition next_start :: "date list \<Rightarrow> date \<Rightarrow> date option" where
  "next_start starts s =
     (case filter (date_less s) starts of
        [] \<Rightarrow> None
      | d # ds \<Rightarrow> Some (foldl (\<lambda>m x. if date_less x m then x else m) d ds))"

definition partition_in_range :: "date list \<Rightarrow> date option \<Rightarrow> date option \<Rightarrow> date \<Rightarrow> bool" where
  "partition_in_range starts gte lte s \<longleftrightarrow>
     (case lte of None \<Rightarrow> True | Some l \<Rightarrow> \<not> date_less l s) \<and>
     (case next_start starts s of
        None \<Rightarrow> True
      | Some n \<Rightarrow> (case gte of None \<Rightarrow> True | Some g \<Rightarrow> date_less g n))"

text \<open>
  Modelled from the spec: \<^verbatim>\<open>filter_indexes_by_datetime\<close> of the database module. A
  partition is kept when its start date is at most \<open>lte\<close> and the next partition's
  start date, if there is one, is after \<open>gte\<close>; the order of the list is kept.
\<close>

definition spec_filter_indexes_by_datetime ::
  "string list \<Rightarrow> string option \<Rightarrow> string option \<Rightarrow> error + string list" where
  "spec_filter_indexes_by_datetime indexes gte lte =
     (case optional_date gte of Inl e \<Rightarrow> Inl e | Inr g \<Rightarrow>
     (case optional_date lte of Inl e \<Rightarrow> Inl e | Inr l \<Rightarrow>
     (case map_result spec_extract_first_date_from_index indexes of Inl e \<Rightarrow> Inl e
      | Inr starts \<Rightarrow>
          Inr (map fst (filter (\<lambda>(index, s). partition_in_range starts g l s)
                          (zip indexes starts))))))"

text \<open>
  Modelled from the spec: the helpers together, with \<^verbatim>\<open>ITEMS_INDEX_PREFIX\<close> and
  \<^verbatim>\<open>ITEM_INDICES\<close> of the mappings module at their defaults. \<^verbatim>\<open>str.lower\<close> is the
  lower-casing of the ASCII letters: the instance is run on ASCII collection ids.
\<close>

definition spec_helpers :: helpers where
  "spec_helpers =
     \<lparr>ITEMS_INDEX_PREFIX = ''items_'',
      ITEM_INDICES = ''items_*'',
      translate_unsupported = spec_translate_unsupported,
      str_lower = lower,
      index_alias_by_collection_id = spec_index_alias_by_collection_id,
      indices = spec_indices,
      extract_date = spec_extract_date,
      extract_first_date_from_index = spec_extract_first_date_from_index,
      filter_indexes_by_datetime = spec_filter_indexes_by_datetime\<rparr>"

subsection \<open>Observations on the world\<close>

text \<open>The dictionary \<open>load_aliases\<close> builds from the engine, as a function of the world.\<close>

definition loaded :: "helpers \<Rightarrow> world \<Rightarrow> (string \<rightharpoonup> string list)" where
  "loaded h w =
     foldl (\<lambda>r (name, aliases). add_index_info (ITEMS_INDEX_PREFIX h) r aliases) Map.empty
       (filter (\<lambda>(name, aliases). startswith name (ITEMS_INDEX_PREFIX h)) (engine w))"




subsection \<open>A concrete world\<close>

text \<open>
  One collection \<^verbatim>\<open>c1\<close> whose only partition starts on 2024-01-01 and holds 30 GB
  against a budget of 25 GB; the selector has not loaded its cache yet.
\<close>

definition world_c1 :: world where
  "world_c1 =
     \<lparr>engine = [(''items_c1_2024-01-01'', [''items_c1'', ''c1_2024-01-01''])],
      size_in_bytes = (\<lambda>_. 30000000000), requests = [], max_size_gb = 25,
      cache = None, timestamp = 0, ttl = 3600, clock = (\<lambda>_. 100000), ticks = 0\<rparr>"

definition item_c1 :: "string \<Rightarrow> string \<Rightarrow> item" where
  "item_c1 i d = \<lparr>item_id = i, item_collection = ''c1'', item_datetime = Some (Some d)\<rparr>"

text \<open>The same world before the collection has any partition.\<close>

definition world_new :: world where
  "world_new = world_c1\<lparr>engine := []\<rparr>"

text \<open>What a call leaves to see: its result, the engine and the requests sent.\<close>

definition observe ::
  "(error + 'a) \<times> world \<Rightarrow> (error + 'a) \<times> (string \<times> string list) list \<times> request list" where
  "observe p = (case p of (r, w) \<Rightarrow> (r, engine w, requests w))"

section \<open>Properties\<close>

subsection \<open>Unfolding the definitions on concrete inputs\<close>

lemmas date_defs = date_less_def is_leap_def days_in_month_def valid_date_def add_one_day_def
  sub_one_day_def digit_char_def pad2_def pad4_def str_date_def

lemmas str_defs = startswith_def removeprefix_def lower_char_def lower_def

lemmas io_defs = ret_def raise_def bnd_def lift_def time_time_def

lemmas cache_defs = is_expired_def get_cache_def set_cache_def

lemmas engine_defs = indices_get_alias_def indices_create_def rename_alias_def
  indices_update_aliases_def indices_stats_def get_index_size_in_gb_sync_def
  is_index_oversized_sync_def

lemmas loader_defs = scan_aliases_def add_index_info_def load_aliases_def get_aliases_def
  refresh_aliases_def loader_get_collection_indexes_def refresh_cache_def
  get_collection_indexes_def select_indexes_def sort_collection_indexes_def

lemmas adapter_defs = create_index_name_def alias_keys_def create_datetime_index_sync_def
  update_index_alias_sync_def

lemmas manager_defs = subscript_datetime_def extract_date_value_def mk_item_id_def
  validate_product_datetime_def handle_new_collection_sync_def handle_early_date_sync_def
  handle_oversized_index_sync_def

lemmas inserter_defs = get_target_index_internal_def get_target_index_def
  ensure_indexes_exist_def create_new_index_for_split_def handle_index_splitting_def
  bulk_target_def create_bulk_actions_def prepare_bulk_actions_def

lemmas spec_defs = is_digit_def number_of_def date_at_start_def checked_date_def
  spec_extract_date_def spec_extract_first_date_from_index_def unsupported_chars_def
  spec_translate_unsupported_def spec_index_alias_by_collection_id_def spec_indices_def
  optional_date_def next_start_def partition_in_range_def spec_filter_indexes_by_datetime_def
  spec_helpers_def

lemmas run_defs = date_defs str_defs io_defs cache_defs engine_defs loader_defs adapter_defs
  manager_defs inserter_defs spec_defs Let_def world_c1_def item_c1_def

subsection \<open>The alias cache\<close>

lemma set_cache_world:
  "snd (set_cache d w) = w\<lparr>cache := Some d, ticks := Suc (ticks w), timestamp := clock w (ticks w)\<rparr>"
  by (simp add: set_cache_def bnd_def time_time_def)

lemma get_cache_value:
  "fst (get_cache w) = Inr (if clock w (ticks w) - timestamp w > ttl w then None else cache w)"
  by (simp add: get_cache_def is_expired_def bnd_def time_time_def)

text \<open>
  C6. Let \<open>w1\<close> be the world right after \<open>set_cache d\<close>, and \<open>w2\<close> any later world in
  which the cache manager's fields have not been written again. The timestamp is the
  clock reading of the set. While the clock reading of the get minus that timestamp is
  at most the TTL, \<open>get_cache\<close> returns \<open>d\<close> itself; once it is strictly more,
  \<open>get_cache\<close> returns \<open>None\<close>.
\<close>

theorem cache_get_after_set:
  assumes "w1 = snd (set_cache d w)"
    and "cache w2 = cache w1" and "timestamp w2 = timestamp w1" and "ttl w2 = ttl w1"
  shows "timestamp w1 = clock w (ticks w)
       \<and> (clock w2 (ticks w2) - timestamp w1 \<le> ttl w1 \<longrightarrow> fst (get_cache w2) = Inr (Some d))
       \<and> (clock w2 (ticks w2) - timestamp w1 > ttl w1 \<longrightarrow> fst (get_cache w2) = Inr None)"
  using assms by (simp add: set_cache_world get_cache_value)

theorem cache_get_after_set_witness:
  "fst (get_cache (snd (set_cache [''items_c1'' \<mapsto> [''c1_2024-01-01'']] world_c1)))
     = Inr (Some [''items_c1'' \<mapsto> [''c1_2024-01-01'']])
   \<and> fst (get_cache ((snd (set_cache [''items_c1'' \<mapsto> [''c1_2024-01-01'']] world_c1))
                        \<lparr>clock := (\<lambda>_. 103601)\<rparr>))
     = Inr None"
proof -
  let ?d = "[''items_c1'' \<mapsto> [''c1_2024-01-01'']]"
  let ?w1 = "snd (set_cache ?d world_c1)"
  have stamp: "timestamp ?w1 = 100000" and life: "ttl ?w1 = 3600"
    and now: "clock ?w1 (ticks ?w1) = 100000"
    by (simp_all add: set_cache_world world_c1_def)
  have fresh: "fst (get_cache ?w1) = Inr (Some ?d)"
    using cache_get_after_set[of ?w1 ?d world_c1 ?w1] stamp life now by simp
  have stale: "fst (get_cache (?w1\<lparr>clock := (\<lambda>_. 103601)\<rparr>)) = Inr None"
    using cache_get_after_set[of ?w1 ?d world_c1 "?w1\<lparr>clock := (\<lambda>_. 103601)\<rparr>"] stamp life
    by simp
  show ?thesis using fresh stale by simp
qed

subsection \<open>The unfiltered selector\<close>

text \<open>
  C7. The unfiltered selector returns the same string for any two datetime ranges: its
  result is computed from the collection ids alone.
\<close>

theorem unfiltered_ignores_datetime:
  "unfiltered_select_indexes h collection_ids range1 = unfiltered_select_indexes h collection_ids range2"
  by (simp add: unfiltered_select_indexes_def)

subsection \<open>The singleton selector\<close>

lemma construct_selector_initialized:
  "construct_selector c (Some (Initialized c0 m)) = Some (Initialized c0 m)"
  by (simp add: construct_selector_def selector_new_def selector_init_def)

lemma construct_selector_first:
  "construct_selector c None = Some (Initialized c new_IndexCacheManager)"
  by (simp add: construct_selector_def selector_new_def selector_init_def)

text \<open>
  C10. The first construction stores an instance holding its client and a fresh cache
  manager in the class attribute. Every later construction, with any client and whatever
  the cache manager holds by then, leaves the class attribute as it is and so returns
  that same instance: the client and the cache manager of the first construction stay.
\<close>

theorem selector_is_singleton:
  "construct_selector c1 None = Some (Initialized c1 new_IndexCacheManager)
   \<and> construct_selector c2 (Some (Initialized c1 m)) = Some (Initialized c1 m)
   \<and> fold construct_selector cs (construct_selector c1 None) = construct_selector c1 None"
proof -
  have "fold construct_selector cs (Some (Initialized c1 m')) = Some (Initialized c1 m')" for m'
    by (induction cs) (simp_all add: construct_selector_initialized)
  then show ?thesis
    by (simp add: construct_selector_first construct_selector_initialized)
qed

subsection \<open>Running the operations\<close>

lemma pair_fst: "fst p = a \<Longrightarrow> p = (a, snd p)"
  by (cases p) simp

lemma bnd_lift_Inl: "bnd (lift (Inl e)) f w = (Inl e, w)"
  by (simp add: bnd_def lift_def)

lemma bnd_Inr: "m w = (Inr x, w') \<Longrightarrow> bnd m f w = f x w'"
  by (simp add: bnd_def)

lemma load_aliases_run:
  "load_aliases h w =
     (Inr (loaded h w),
      w\<lparr>requests := requests w @ [GetAlias (ITEMS_INDEX_PREFIX h @ ''*'')],
        cache := Some (loaded h w), ticks := Suc (ticks w), timestamp := clock w (ticks w)\<rparr>)"
  by (simp add: load_aliases_def loaded_def indices_get_alias_def bnd_def set_cache_def
      time_time_def ret_def Let_def)

lemma refresh_cache_run:
  "refresh_cache h w =
     (Inr (loaded h w),
      w\<lparr>requests := requests w @ [GetAlias (ITEMS_INDEX_PREFIX h @ ''*'')],
        cache := Some (loaded h w), ticks := Suc (ticks w), timestamp := clock w (ticks w)\<rparr>)"
  by (simp add: refresh_cache_def refresh_aliases_def load_aliases_run)

lemma prefix_removeprefix:
  "ITEMS_INDEX_PREFIX h @ removeprefix (create_index_name h cid s) (ITEMS_INDEX_PREFIX h)
     = create_index_name h cid s"
  by (simp add: removeprefix_def startswith_def create_index_name_def)

lemma create_datetime_index_sync_run:
  "create_datetime_index_sync h cid s w =
     (Inr (removeprefix (create_index_name h cid s) (ITEMS_INDEX_PREFIX h)),
      w\<lparr>engine := (if create_index_name h cid s \<in> set (map fst (engine w)) then engine w
                    else engine w @ [(create_index_name h cid s,
                           alias_keys (index_alias_by_collection_id h cid)
                             (removeprefix (create_index_name h cid s) (ITEMS_INDEX_PREFIX h)))]),
        requests := requests w @ [CreateIndex (create_index_name h cid s)
                           (alias_keys (index_alias_by_collection_id h cid)
                             (removeprefix (create_index_name h cid s) (ITEMS_INDEX_PREFIX h)))]\<rparr>)"
  by (simp add: create_datetime_index_sync_def indices_create_def bnd_def ret_def Let_def)

lemma update_index_alias_sync_run:
  "update_index_alias_sync h end_date old_alias w =
     (Inr (old_alias @ ''-'' @ end_date),
      w\<lparr>engine := map (\<lambda>(name, aliases).
                      if name = ITEMS_INDEX_PREFIX h @ old_alias
                      then (name, rename_alias old_alias (old_alias @ ''-'' @ end_date) aliases)
                      else (name, aliases)) (engine w),
        requests := requests w @ [UpdateAliases (ITEMS_INDEX_PREFIX h @ old_alias) old_alias
                                    (old_alias @ ''-'' @ end_date)]\<rparr>)"
  by (simp add: update_index_alias_sync_def indices_update_aliases_def bnd_def ret_def Let_def
      cong: if_cong)

lemma sort_collection_indexes_run:
  "engine (snd (sort_collection_indexes h cid w)) = engine w"
  "requests (snd (sort_collection_indexes h cid w)) = requests w"
  by (simp_all add: sort_collection_indexes_def)

text \<open>The branches of \<open>get_target_index_internal\<close> once the partitions are known.\<close>

lemma get_target_index_internal_known:
  assumes "validate_product_datetime product = Inr dt"
    and "select_indexes h (Some [cid]) (Some dt, Some dt) w = (Inr target, w1)"
    and "get_collection_indexes h cid w1 = (Inr all, w2)"
    and "all \<noteq> []"
    and "extract_date h dt = Inr start_date"
    and "extract_first_date_from_index h (hd (sort all)) = Inr end_date"
  shows "get_target_index_internal h cid product check_size w =
     (if date_less start_date end_date
      then bnd (handle_early_date_sync h cid start_date end_date) (\<lambda>alias.
           bnd (refresh_cache h) (\<lambda>_. ret alias))
      else if target \<noteq> last (sort all) then ret target
      else if check_size
      then bnd (is_index_oversized_sync target) (\<lambda>oversized.
             if oversized
             then bnd (handle_oversized_index_sync h cid target dt) (\<lambda>target_index.
                  bnd (refresh_cache h) (\<lambda>_. ret target_index))
             else ret target)
      else ret target) (snd (sort_collection_indexes h cid w2))"
  using assms
  by (simp add: get_target_index_internal_def bnd_def lift_def sort_collection_indexes_def)

subsection \<open>An item without a datetime\<close>

text \<open>
  When the \<^verbatim>\<open>datetime\<close> of the item's properties is there and is \<^verbatim>\<open>None\<close> or empty,
  resolving the target index raises \<^verbatim>\<open>HTTPException\<close> with status 400 and leaves the
  world as it was: no request has been sent to the engine, the cache has not been
  read, nothing has been created.
\<close>

lemma null_datetime_is_bad_request:
  assumes "item_datetime product = Some None \<or> item_datetime product = Some (Some [])"
  shows "get_target_index_internal h collection_id product check_size w =
           (Inl (HTTPException 400 ''Product datetime is required for indexing''), w)
         \<and> get_target_index h collection_id product w =
           (Inl (HTTPException 400 ''Product datetime is required for indexing''), w)"
  using assms
  by (auto simp add: get_target_index_def get_target_index_internal_def
      validate_product_datetime_def subscript_datetime_def bnd_lift_Inl)

text \<open>
  C8. The claim has a bad request (status 400) for an item that is missing its
  datetime, and the docstring of \<^verbatim>\<open>_validate_product_datetime\<close> promises
  \<^verbatim>\<open>HTTPException\<close> when the datetime is missing. The code does not give it when the
  properties have no \<^verbatim>\<open>datetime\<close> key: the subscript
  \<^verbatim>\<open>product["properties"]["datetime"]\<close> raises \<^verbatim>\<open>KeyError\<close> before the check is
  reached. The world is left as it was.
\<close>

theorem missing_datetime_key_raises_key_error:
  assumes "item_datetime product = None"
  shows "get_target_index_internal h collection_id product check_size w =
           (Inl (KeyError ''datetime''), w)
         \<and> get_target_index h collection_id product w = (Inl (KeyError ''datetime''), w)
         \<and> fst (get_target_index h collection_id product w) \<noteq>
             Inl (HTTPException 400 ''Product datetime is required for indexing'')"
  using assms
  by (simp add: get_target_index_def get_target_index_internal_def
      validate_product_datetime_def subscript_datetime_def bnd_lift_Inl)

theorem missing_datetime_key_raises_key_error_witness:
  "get_target_index spec_helpers ''c1''
     \<lparr>item_id = ''a'', item_collection = ''c1'', item_datetime = None\<rparr> world_c1
   = (Inl (KeyError ''datetime''), world_c1)"
proof -
  have absent: "item_datetime \<lparr>item_id = ''a'', item_collection = ''c1'', item_datetime = None\<rparr>
                  = None"
    by simp
  show ?thesis
    using missing_datetime_key_raises_key_error[OF absent, of spec_helpers "''c1''" True world_c1]
    by simp
qed

text \<open>
  In a batch for a collection that has no partition yet, a first item whose datetime
  is \<^verbatim>\<open>None\<close> does not reach the check either: \<^verbatim>\<open>_ensure_indexes_exist\<close> hands the
  value to \<^verbatim>\<open>extract_date\<close>, which raises \<^verbatim>\<open>AttributeError\<close>.
\<close>

lemma batch_null_datetime_new_collection:
  "observe (prepare_bulk_actions spec_helpers ''c1''
       [\<lparr>item_id = ''a'', item_collection = ''c1'', item_datetime = Some None\<rparr>] world_new)
     = (Inl AttributeError, [], [GetAlias ''items_*''])"
  by (simp add: observe_def world_new_def run_defs)

subsection \<open>Datetime-filtered selection that matches nothing\<close>

text \<open>
  C9. \<open>select_loop\<close> collects, over the named collections, the partitions the datetime
  filter keeps. For a non-empty list of collection ids, when it keeps none,
  \<open>select_indexes\<close> returns the empty string, which is not the wildcard pattern (the
  pattern is not empty); the wildcard pattern is what is returned when the list of
  collection ids is \<^verbatim>\<open>None\<close> or empty.
\<close>

theorem select_indexes_empty_not_wildcard:
  assumes "ids \<noteq> []"
    and "select_loop h ids (fst datetime_search) (snd datetime_search) [] w = (Inr [], w')"
    and "ITEM_INDICES h \<noteq> []"
  shows "select_indexes h (Some ids) datetime_search w = (Inr [], w')
         \<and> fst (select_indexes h (Some ids) datetime_search w) \<noteq> Inr (ITEM_INDICES h)
         \<and> select_indexes h None datetime_search w = (Inr (ITEM_INDICES h), w)
         \<and> select_indexes h (Some []) datetime_search w = (Inr (ITEM_INDICES h), w)"
  using assms
  by (cases ids) (simp_all add: select_indexes_def bnd_Inr ret_def)

theorem select_indexes_empty_not_wildcard_witness:
  "fst (select_indexes spec_helpers (Some [''c1''])
          (Some ''2023-06-01T00:00:00Z'', Some ''2023-06-30T00:00:00Z'') world_c1) = Inr []
   \<and> fst (select_indexes spec_helpers None
          (Some ''2023-06-01T00:00:00Z'', Some ''2023-06-30T00:00:00Z'') world_c1)
       = Inr ''items_*''"
proof -
  let ?r = "(Some ''2023-06-01T00:00:00Z'', Some ''2023-06-30T00:00:00Z'')"
  let ?w' = "snd (select_loop spec_helpers [''c1''] (fst ?r) (snd ?r) [] world_c1)"
  have 1: "[''c1''] \<noteq> ([] :: string list)" by simp
  have 2: "select_loop spec_helpers [''c1''] (fst ?r) (snd ?r) [] world_c1 = (Inr [], ?w')"
    by (rule prod_eqI) (simp_all add: run_defs)
  have 3: "ITEM_INDICES spec_helpers \<noteq> []" by (simp add: spec_helpers_def)
  show ?thesis
    using select_indexes_empty_not_wildcard[OF 1 2 3] by (simp add: spec_helpers_def)
qed

subsection \<open>An item dated before every known partition\<close>

text \<open>
  C4, as the code has it. Let the item's datetime be valid, let the selector know the
  non-empty list \<open>all\<close> of partitions of the collection (read in the world \<open>w2\<close>), and
  let the item's date \<open>start_date\<close> be strictly before \<open>end_date\<close>, the start date of the
  earliest of them. Then target-index resolution creates the partition \<open>new_name\<close>
  starting at the item's date and renames the alias of that new partition, giving it
  the end date \<open>end_date\<close> minus one day; it returns the renamed alias and reloads the
  cache. Every other index of the engine, the previous earliest partition among them,
  keeps its aliases as they were.
\<close>

theorem early_date_closes_new_partition:
  assumes "validate_product_datetime product = Inr dt"
    and "select_indexes h (Some [cid]) (Some dt, Some dt) w = (Inr target, w1)"
    and "get_collection_indexes h cid w1 = (Inr all, w2)"
    and "all \<noteq> []"
    and "extract_date h dt = Inr start_date"
    and "extract_first_date_from_index h (hd (sort all)) = Inr end_date"
    and "date_less start_date end_date"
    and "sub_one_day end_date = Inr day_before"
    and "new_name = create_index_name h cid (str_date start_date)"
    and "new_alias = removeprefix new_name (ITEMS_INDEX_PREFIX h)"
    and "w' = snd (get_target_index_internal h cid product check_size w)"
  shows "fst (get_target_index_internal h cid product check_size w) =
           Inr (new_alias @ ''-'' @ str_date day_before)
       \<and> requests w' = requests w2 @
           [CreateIndex new_name (alias_keys (index_alias_by_collection_id h cid) new_alias),
            UpdateAliases new_name new_alias (new_alias @ ''-'' @ str_date day_before),
            GetAlias (ITEMS_INDEX_PREFIX h @ ''*'')]
       \<and> (\<forall>e \<in> set (engine w2). fst e \<noteq> new_name \<longrightarrow> e \<in> set (engine w'))"
proof -
  have run: "get_target_index_internal h cid product check_size w =
      bnd (handle_early_date_sync h cid start_date end_date) (\<lambda>alias.
        bnd (refresh_cache h) (\<lambda>_. ret alias)) (snd (sort_collection_indexes h cid w2))"
    using get_target_index_internal_known[OF assms(1-6)] assms(7) by simp
  have full: "ITEMS_INDEX_PREFIX h @ new_alias = new_name"
    using assms(9,10) by (simp add: prefix_removeprefix)
  have kept: "e \<in> set (engine w2) \<Longrightarrow> fst e \<noteq> new_name \<Longrightarrow>
      e \<in> set (map (\<lambda>(name, aliases).
                  if name = new_name then (name, rename_alias a b aliases) else (name, aliases))
             (if new_name \<in> set (map fst (engine w2)) then engine w2
              else engine w2 @ [(new_name, ks)]))" for e a b ks
    by (cases e) (force simp add: image_iff)
  show ?thesis
    unfolding assms(11) run
    using assms(8-10) full kept
    by (simp add: handle_early_date_sync_def bnd_def create_datetime_index_sync_run
        update_index_alias_sync_run refresh_cache_run lift_def ret_def
        sort_collection_indexes_run cong: if_cong)
qed

theorem early_date_closes_new_partition_witness:
  "fst (get_target_index_internal spec_helpers ''c1''
          (item_c1 ''a'' ''2023-12-25T00:00:00Z'') True world_c1)
     = Inr ''c1_2023-12-25-2023-12-31''
   \<and> (''items_c1_2024-01-01'', [''items_c1'', ''c1_2024-01-01''])
       \<in> set (engine (snd (get_target_index_internal spec_helpers ''c1''
                 (item_c1 ''a'' ''2023-12-25T00:00:00Z'') True world_c1)))"
proof -
  let ?it = "item_c1 ''a'' ''2023-12-25T00:00:00Z''"
  let ?dt = "''2023-12-25T00:00:00Z''"
  let ?w1 = "snd (select_indexes spec_helpers (Some [''c1'']) (Some ?dt, Some ?dt) world_c1)"
  let ?w2 = "snd (get_collection_indexes spec_helpers ''c1'' ?w1)"
  have 1: "validate_product_datetime ?it = Inr ?dt"
    by (simp add: run_defs)
  have 2: "select_indexes spec_helpers (Some [''c1'']) (Some ?dt, Some ?dt) world_c1 = (Inr [], ?w1)"
    by (rule pair_fst) (simp add: run_defs)
  have 3: "get_collection_indexes spec_helpers ''c1'' ?w1 = (Inr [''c1_2024-01-01''], ?w2)"
    by (rule pair_fst) (simp add: run_defs)
  have 4: "[''c1_2024-01-01''] \<noteq> ([] :: string list)" by simp
  have 5: "extract_date spec_helpers ?dt = Inr (Date 2023 12 25)"
    by (simp add: run_defs)
  have 6: "extract_first_date_from_index spec_helpers (hd (sort [''c1_2024-01-01'']))
             = Inr (Date 2024 1 1)"
    by (simp add: run_defs)
  have 7: "date_less (Date 2023 12 25) (Date 2024 1 1)" by (simp add: run_defs)
  have 8: "sub_one_day (Date 2024 1 1) = Inr (Date 2023 12 31)" by (simp add: run_defs)
  have old: "(''items_c1_2024-01-01'', [''items_c1'', ''c1_2024-01-01'']) \<in> set (engine ?w2)"
    by (simp add: run_defs)
  have nm: "create_index_name spec_helpers ''c1'' (str_date (Date 2023 12 25))
                = ''items_c1_2023-12-25''"
    by (simp add: run_defs)
  have renamed: "removeprefix (create_index_name spec_helpers ''c1'' (str_date (Date 2023 12 25)))
                  (ITEMS_INDEX_PREFIX spec_helpers) @ ''-'' @ str_date (Date 2023 12 31)
                = ''c1_2023-12-25-2023-12-31''"
    by (simp add: run_defs)
  note inst = early_date_closes_new_partition[OF 1 2 3 4 5 6 7 8 refl refl refl, of True]
  have "fst (get_target_index_internal spec_helpers ''c1'' ?it True world_c1)
          = Inr ''c1_2023-12-25-2023-12-31''"
    using conjunct1[OF inst] by (simp only: renamed)
  moreover have "(''items_c1_2024-01-01'', [''items_c1'', ''c1_2024-01-01''])
       \<in> set (engine (snd (get_target_index_internal spec_helpers ''c1'' ?it True world_c1)))"
    using conjunct2[OF conjunct2[OF inst], unfolded nm, rule_format, OF old] by simp
  ultimately show ?thesis by simp
qed

text \<open>
  The claim C4 gives the end date to the alias of the previous earliest partition. In
  \<open>world_c1\<close>, an item of 2023-12-25 precedes the only partition, which starts on
  2024-01-01: afterwards that partition still has the alias \<^verbatim>\<open>c1_2024-01-01\<close> with no
  end date, and the end date 2023-12-31 is on the alias of the new partition.
\<close>

theorem early_date_counterexample:
  "observe (get_target_index spec_helpers ''c1'' (item_c1 ''a'' ''2023-12-25T00:00:00Z'') world_c1)
     = (Inr ''c1_2023-12-25-2023-12-31'',
        [(''items_c1_2024-01-01'', [''items_c1'', ''c1_2024-01-01'']),
         (''items_c1_2023-12-25'', [''items_c1'', ''c1_2023-12-25-2023-12-31''])],
        [GetAlias ''items_*'',
         CreateIndex ''items_c1_2023-12-25'' [''items_c1'', ''c1_2023-12-25''],
         UpdateAliases ''items_c1_2023-12-25'' ''c1_2023-12-25'' ''c1_2023-12-25-2023-12-31'',
         GetAlias ''items_*''])"
  by (simp add: observe_def run_defs)

subsection \<open>A rollover on a single write\<close>

lemma is_index_oversized_sync_world:
  "snd (is_index_oversized_sync name w) = w\<lparr>requests := requests w @ [Stats name]\<rparr>"
  by (simp add: is_index_oversized_sync_def get_index_size_in_gb_sync_def indices_stats_def
      bnd_def ret_def)

text \<open>
  The rollover of a single write, in general. Let the item's datetime be valid, let the item not precede
  the earliest known partition, let the datetime filter select exactly the latest
  known partition \<open>target\<close>, let that partition be oversized and let the item's date
  \<open>item_date\<close> differ from the start date in its name. Then the write sends one stats
  request, renames the alias of the old partition with the item's date as end date,
  creates the partition \<open>new_name\<close> that starts the day after the item's date, reloads
  the cache, and returns the alias of the new partition: the item that triggered the
  rollover is routed to the new partition, not to the old one.
\<close>

theorem single_rollover_routes_trigger_to_new:
  assumes "validate_product_datetime product = Inr dt"
    and "select_indexes h (Some [cid]) (Some dt, Some dt) w = (Inr target, w1)"
    and "get_collection_indexes h cid w1 = (Inr all, w2)"
    and "all \<noteq> []"
    and "extract_date h dt = Inr item_date"
    and "extract_first_date_from_index h (hd (sort all)) = Inr earliest"
    and "\<not> date_less item_date earliest"
    and "target = last (sort all)"
    and "fst (is_index_oversized_sync target (snd (sort_collection_indexes h cid w2))) = Inr True"
    and "extract_first_date_from_index h target = Inr latest_index_start"
    and "item_date \<noteq> latest_index_start"
    and "add_one_day item_date = Inr next_day"
    and "new_name = create_index_name h cid (str_date next_day)"
    and "w' = snd (get_target_index h cid product w)"
  shows "fst (get_target_index h cid product w) = Inr (removeprefix new_name (ITEMS_INDEX_PREFIX h))
       \<and> requests w' = requests w2 @
           [Stats target,
            UpdateAliases (ITEMS_INDEX_PREFIX h @ target) target (target @ ''-'' @ str_date item_date),
            CreateIndex new_name (alias_keys (index_alias_by_collection_id h cid)
                                    (removeprefix new_name (ITEMS_INDEX_PREFIX h))),
            GetAlias (ITEMS_INDEX_PREFIX h @ ''*'')]"
proof -
  let ?w3 = "snd (sort_collection_indexes h cid w2)"
  have over: "is_index_oversized_sync target ?w3 = (Inr True, ?w3\<lparr>requests := requests ?w3 @ [Stats target]\<rparr>)"
    using assms(9) by (intro prod_eqI) (simp_all add: is_index_oversized_sync_world)
  have run: "get_target_index h cid product w =
      bnd (handle_oversized_index_sync h cid target dt) (\<lambda>target_index.
        bnd (refresh_cache h) (\<lambda>_. ret target_index))
        (?w3\<lparr>requests := requests ?w3 @ [Stats target]\<rparr>)"
    unfolding get_target_index_def
    using get_target_index_internal_known[OF assms(1-6), of True] assms(7,8) over
    by (simp add: bnd_Inr)
  show ?thesis
    unfolding assms(14) run
    using assms(5,10-13)
    by (simp add: handle_oversized_index_sync_def bnd_def create_datetime_index_sync_run
        update_index_alias_sync_run refresh_cache_run lift_def ret_def
        sort_collection_indexes_run cong: if_cong)
qed

theorem single_rollover_routes_trigger_to_new_witness:
  "fst (get_target_index spec_helpers ''c1'' (item_c1 ''a'' ''2024-01-05T00:00:00Z'') world_c1)
     = Inr ''c1_2024-01-06''"
proof -
  let ?it = "item_c1 ''a'' ''2024-01-05T00:00:00Z''"
  let ?dt = "''2024-01-05T00:00:00Z''"
  let ?w1 = "snd (select_indexes spec_helpers (Some [''c1'']) (Some ?dt, Some ?dt) world_c1)"
  let ?w2 = "snd (get_collection_indexes spec_helpers ''c1'' ?w1)"
  have 1: "validate_product_datetime ?it = Inr ?dt"
    by (simp add: run_defs)
  have 2: "select_indexes spec_helpers (Some [''c1'']) (Some ?dt, Some ?dt) world_c1
             = (Inr ''c1_2024-01-01'', ?w1)"
    by (rule pair_fst) (simp add: run_defs)
  have 3: "get_collection_indexes spec_helpers ''c1'' ?w1 = (Inr [''c1_2024-01-01''], ?w2)"
    by (rule pair_fst) (simp add: run_defs)
  have 4: "[''c1_2024-01-01''] \<noteq> ([] :: string list)" by simp
  have 5: "extract_date spec_helpers ?dt = Inr (Date 2024 1 5)"
    by (simp add: run_defs)
  have 6: "extract_first_date_from_index spec_helpers (hd (sort [''c1_2024-01-01'']))
             = Inr (Date 2024 1 1)"
    by (simp add: run_defs)
  have 7: "\<not> date_less (Date 2024 1 5) (Date 2024 1 1)" by (simp add: run_defs)
  have 8: "''c1_2024-01-01'' = last (sort [''c1_2024-01-01''])" by simp
  have 9: "fst (is_index_oversized_sync ''c1_2024-01-01''
                 (snd (sort_collection_indexes spec_helpers ''c1'' ?w2))) = Inr True"
    by (simp add: run_defs)
  have 10: "extract_first_date_from_index spec_helpers ''c1_2024-01-01'' = Inr (Date 2024 1 1)"
    by (simp add: run_defs)
  have 11: "Date 2024 1 5 \<noteq> Date 2024 1 1" by simp
  have 12: "add_one_day (Date 2024 1 5) = Inr (Date 2024 1 6)" by (simp add: run_defs)
  have renamed: "removeprefix (create_index_name spec_helpers ''c1'' (str_date (Date 2024 1 6)))
                   (ITEMS_INDEX_PREFIX spec_helpers) = ''c1_2024-01-06''"
    by (simp add: run_defs)
  note inst = single_rollover_routes_trigger_to_new[OF 1 2 3 4 5 6 7 8 9 10 11 12 refl refl]
  show ?thesis
    using conjunct1[OF inst] by (simp only: renamed)
qed

text \<open>
  C3. The claim keeps every item of the day on which a rollover is detected, the
  triggering one included, in the old partition. The code does not. In \<open>world_c1\<close> an
  item of 2024-01-05 routes to the only partition, which starts on 2024-01-01 and is
  oversized: the alias of that partition is closed on 2024-01-05, the partition
  \<^verbatim>\<open>c1_2024-01-06\<close> is created, and the item of 2024-01-05 is routed to that new
  partition, which starts the day after the item's own date. A second item of
  2024-01-05 written afterwards is routed to the old partition under its closed alias,
  an item of 2024-01-06 to the new partition, and a selection over 2024-01-05 names the
  old partition only: it does not reach the item that triggered the rollover.
\<close>

theorem single_rollover_trigger_misplaced:
  "observe (get_target_index spec_helpers ''c1'' (item_c1 ''a'' ''2024-01-05T00:00:00Z'') world_c1)
     = (Inr ''c1_2024-01-06'',
        [(''items_c1_2024-01-01'', [''items_c1'', ''c1_2024-01-01-2024-01-05'']),
         (''items_c1_2024-01-06'', [''items_c1'', ''c1_2024-01-06''])],
        [GetAlias ''items_*'', Stats ''c1_2024-01-01'',
         UpdateAliases ''items_c1_2024-01-01'' ''c1_2024-01-01'' ''c1_2024-01-01-2024-01-05'',
         CreateIndex ''items_c1_2024-01-06'' [''items_c1'', ''c1_2024-01-06''],
         GetAlias ''items_*''])
   \<and> fst (bnd (get_target_index spec_helpers ''c1'' (item_c1 ''a'' ''2024-01-05T00:00:00Z''))
         (\<lambda>_. bnd (get_target_index spec_helpers ''c1'' (item_c1 ''b'' ''2024-01-05T10:00:00Z''))
         (\<lambda>same_day. bnd (get_target_index spec_helpers ''c1'' (item_c1 ''c'' ''2024-01-06T00:00:00Z''))
         (\<lambda>next_day. bnd (select_indexes spec_helpers (Some [''c1''])
                            (Some ''2024-01-05T00:00:00Z'', Some ''2024-01-05T23:59:59Z''))
         (\<lambda>selected. ret (same_day, next_day, selected))))) world_c1)
     = Inr (''c1_2024-01-01-2024-01-05'', ''c1_2024-01-06'', ''c1_2024-01-01-2024-01-05'')"
  by (simp add: observe_def run_defs)

subsection \<open>The split point of a batch\<close>

text \<open>
  C2, as the code has it. Let the selector know the non-empty list \<open>all\<close> of partitions
  of the collection, let the first item of the batch resolve, with the size check
  suppressed, to the latest of them, and let that partition be oversized (the world
  after this one stats request is \<open>w4\<close>). The code reads the date
  \<open>current_index_end_date\<close> from the name of that partition. When the first item's date
  differs from it, the batch computes one rollover: one request renames the alias of
  the old partition with that date as end date, one request creates the partition
  that starts the day after that date, and that date is the remembered split date.
  When the first item's date equals it, there is no split point and no further request.
\<close>

theorem batch_rollover_once:
  assumes "get_collection_indexes h cid w = (Inr all, w1)"
    and "all \<noteq> []"
    and "items = first_item # rest"
    and "get_target_index_internal h cid first_item False
           (snd (sort_collection_indexes h cid w1)) = (Inr first_item_index, w3)"
    and "first_item_index = last (sort all)"
    and "fst (is_index_oversized_sync first_item_index w3) = Inr True"
    and "extract_first_date_from_index h first_item_index = Inr current_index_end_date"
    and "item_datetime first_item = Some (Some s)"
    and "extract_date h s = Inr first_item_date"
    and "add_one_day current_index_end_date = Inr next_day_start"
    and "new_name = create_index_name h cid (str_date next_day_start)"
    and "w4 = w3\<lparr>requests := requests w3 @ [Stats first_item_index]\<rparr>"
  shows "(first_item_date \<noteq> current_index_end_date \<longrightarrow>
            fst (handle_index_splitting h cid items w) =
              Inr (Some \<lparr>split_date = current_index_end_date,
                         new_index = removeprefix new_name (ITEMS_INDEX_PREFIX h)\<rparr>)
          \<and> requests (snd (handle_index_splitting h cid items w)) = requests w4 @
              [UpdateAliases (ITEMS_INDEX_PREFIX h @ first_item_index) first_item_index
                 (first_item_index @ ''-'' @ str_date current_index_end_date),
               CreateIndex new_name (alias_keys (index_alias_by_collection_id h cid)
                                       (removeprefix new_name (ITEMS_INDEX_PREFIX h)))])
       \<and> (first_item_date = current_index_end_date \<longrightarrow>
            handle_index_splitting h cid items w = (Inr None, w4))"
proof -
  have over: "is_index_oversized_sync first_item_index w3 = (Inr True, w4)"
    using assms(6,12) by (intro prod_eqI) (simp_all add: is_index_oversized_sync_world)
  have run: "handle_index_splitting h cid items w =
      create_new_index_for_split h cid first_item_index first_item w4"
    using assms(1-5) over
    by (simp add: handle_index_splitting_def bnd_def sort_collection_indexes_def raise_def)
  show ?thesis
    unfolding run
    using assms(7-11)
    by (simp add: create_new_index_for_split_def bnd_def lift_def ret_def
        subscript_datetime_def extract_date_value_def update_index_alias_sync_run
        create_datetime_index_sync_run cong: if_cong)
qed

theorem batch_rollover_once_witness:
  "fst (handle_index_splitting spec_helpers ''c1''
          [item_c1 ''a'' ''2024-01-05T00:00:00Z'', item_c1 ''b'' ''2024-01-06T00:00:00Z'']
          world_c1)
     = Inr (Some \<lparr>split_date = Date 2024 1 1, new_index = ''c1_2024-01-02''\<rparr>)"
proof -
  let ?a = "item_c1 ''a'' ''2024-01-05T00:00:00Z''"
  let ?b = "item_c1 ''b'' ''2024-01-06T00:00:00Z''"
  let ?w1 = "snd (get_collection_indexes spec_helpers ''c1'' world_c1)"
  let ?w2 = "snd (sort_collection_indexes spec_helpers ''c1'' ?w1)"
  let ?w3 = "snd (get_target_index_internal spec_helpers ''c1'' ?a False ?w2)"
  have 1: "get_collection_indexes spec_helpers ''c1'' world_c1 = (Inr [''c1_2024-01-01''], ?w1)"
    by (rule pair_fst) (simp add: run_defs)
  have 2: "[''c1_2024-01-01''] \<noteq> ([] :: string list)" by simp
  have 4: "get_target_index_internal spec_helpers ''c1'' ?a False ?w2 = (Inr ''c1_2024-01-01'', ?w3)"
    by (rule pair_fst) (simp add: run_defs)
  have 5: "''c1_2024-01-01'' = last (sort [''c1_2024-01-01''])" by simp
  have 6: "fst (is_index_oversized_sync ''c1_2024-01-01'' ?w3) = Inr True"
    by (simp add: run_defs)
  have 7: "extract_first_date_from_index spec_helpers ''c1_2024-01-01'' = Inr (Date 2024 1 1)"
    by (simp add: run_defs)
  have 8: "item_datetime ?a = Some (Some ''2024-01-05T00:00:00Z'')"
    by (simp add: item_c1_def)
  have 9: "extract_date spec_helpers ''2024-01-05T00:00:00Z'' = Inr (Date 2024 1 5)"
    by (simp add: run_defs)
  have 10: "add_one_day (Date 2024 1 1) = Inr (Date 2024 1 2)" by (simp add: run_defs)
  have 11: "Date 2024 1 5 \<noteq> Date 2024 1 1" by simp
  have renamed: "removeprefix (create_index_name spec_helpers ''c1'' (str_date (Date 2024 1 2)))
                   (ITEMS_INDEX_PREFIX spec_helpers) = ''c1_2024-01-02''"
    by (simp add: run_defs)
  note inst = batch_rollover_once[OF 1 2 refl 4 5 6 7 8 9 10 refl refl, of "[?b]"]
  show ?thesis
    using conjunct1[OF conjunct1[OF inst, rule_format, OF 11]] by (simp only: renamed)
qed

text \<open>
  The claim C2 has a rollover whenever the first item resolves to the latest partition
  and that partition is oversized. In \<open>world_c1\<close> the first item of the batch, of
  2024-01-01, resolves to the only partition, which is oversized; its date is the start
  date of the partition, and the batch computes no split point and sends no request
  beyond reading the aliases and the one stats request.
\<close>

theorem batch_same_day_counterexample:
  "fst (get_target_index_internal spec_helpers ''c1''
          (item_c1 ''a'' ''2024-01-01T00:00:00Z'') False world_c1) = Inr ''c1_2024-01-01''
   \<and> fst (is_index_oversized_sync ''c1_2024-01-01'' world_c1) = Inr True
   \<and> observe (handle_index_splitting spec_helpers ''c1''
         [item_c1 ''a'' ''2024-01-01T00:00:00Z'', item_c1 ''b'' ''2024-01-02T00:00:00Z'']
         world_c1)
     = (Inr None,
        [(''items_c1_2024-01-01'', [''items_c1'', ''c1_2024-01-01''])],
        [GetAlias ''items_*'', Stats ''c1_2024-01-01''])"
  by (simp add: observe_def run_defs)

subsection \<open>The example batch\<close>

text \<open>
  C1, as the code has it. In \<open>world_c1\<close> the only partition of \<^verbatim>\<open>c1\<close> starts on
  2024-01-01 and is oversized. For the batch of an item of 2024-01-01 and an item of
  2024-01-02, the first item's date is the start date of the partition, so no split
  point is computed: both bulk actions address \<^verbatim>\<open>c1_2024-01-01\<close>, the engine keeps its
  one index with the alias \<^verbatim>\<open>c1_2024-01-01\<close>, and the only requests are the reading of
  the aliases and one stats request.
\<close>

theorem batch_example_no_rollover:
  "observe (prepare_bulk_actions spec_helpers ''c1''
       [item_c1 ''a'' ''2024-01-01T00:00:00Z'', item_c1 ''b'' ''2024-01-02T00:00:00Z''] world_c1)
     = (Inr [\<lparr>action_index = ''c1_2024-01-01'', action_id = ''a|c1'',
               action_source = item_c1 ''a'' ''2024-01-01T00:00:00Z''\<rparr>,
             \<lparr>action_index = ''c1_2024-01-01'', action_id = ''b|c1'',
               action_source = item_c1 ''b'' ''2024-01-02T00:00:00Z''\<rparr>],
        [(''items_c1_2024-01-01'', [''items_c1'', ''c1_2024-01-01''])],
        [GetAlias ''items_*'', Stats ''c1_2024-01-01''])"
  by (simp add: observe_def run_defs)

text \<open>
  The claim C1 routes the second item to \<^verbatim>\<open>c1_2024-01-02\<close> and renames the alias of
  the old partition with the end date 2024-01-01. The code addresses both items to
  \<^verbatim>\<open>c1_2024-01-01\<close> and leaves the aliases of the old partition as they were.
\<close>

theorem batch_example_counterexample:
  "(case prepare_bulk_actions spec_helpers ''c1''
          [item_c1 ''a'' ''2024-01-01T00:00:00Z'', item_c1 ''b'' ''2024-01-02T00:00:00Z'']
          world_c1 of
      (r, w) \<Rightarrow> (map_sum id (map action_index) r, map snd (engine w)))
     = (Inr [''c1_2024-01-01'', ''c1_2024-01-01''], [[''items_c1'', ''c1_2024-01-01'']])"
  by (simp add: run_defs)

subsection \<open>Counting the size checks\<close>

































subsection \<open>A batch with a split point\<close>







text \<open>
  Where the per-item resolution lands is another matter. The split renames the alias of
  the old partition and does not reload the cache, so an item on the split date is
  addressed to the alias the batch has just renamed away: with items of 2024-01-05,
  2024-01-01 and 2024-01-03, the second action addresses \<^verbatim>\<open>c1_2024-01-01\<close>, while the
  engine holds that partition under \<^verbatim>\<open>c1_2024-01-01-2024-01-01\<close> only.
\<close>

lemma batch_split_stale_alias:
  "(case prepare_bulk_actions spec_helpers ''c1''
          [item_c1 ''a'' ''2024-01-05T00:00:00Z'', item_c1 ''b'' ''2024-01-01T00:00:00Z'',
           item_c1 ''c'' ''2024-01-03T00:00:00Z'']
          world_c1 of
      (r, w) \<Rightarrow> (map_sum id (map action_index) r, engine w))
     = (Inr [''c1_2024-01-02'', ''c1_2024-01-01'', ''c1_2024-01-02''],
        [(''items_c1_2024-01-01'', [''items_c1'', ''c1_2024-01-01-2024-01-01'']),
         (''items_c1_2024-01-02'', [''items_c1'', ''c1_2024-01-02''])])"
  by (simp add: run_defs)

end
